theory Spec2Isabelle
  imports Complex_Main
begin

section \<open>A browser 3D model viewer: the code of ModelViewer.tsx\<close>

text \<open>
  The component file \<^verbatim>\<open>src/components/ModelViewer.tsx\<close> picks a loader from the file
  name, loads the model, frames the camera around it and renders two display options.
  Its functions are embedded here one by one, under their own names. The repository
  holds a second version of the file with another page layout; \<^verbatim>\<open>getModelType\<close>,
  \<^verbatim>\<open>ModelLoader\<close> and the three model components are the same text in both, and so are
  the conditions under which the two option widgets are rendered.

  JavaScript numbers are read as real numbers: every numeric fact below compares the
  results of the same operations, so none of them depends on rounding. JavaScript
  strings are read as \<^typ>\<open>string\<close>, which is enough for file names and their ASCII
  extensions.
\<close>

subsection \<open>Strings: \<^verbatim>\<open>split\<close>, \<^verbatim>\<open>pop\<close>, \<^verbatim>\<open>toLowerCase\<close>\<close>

definition toLowerCase_char :: "char \<Rightarrow> char" where
  "toLowerCase_char c =
     (case map_of (zip ''ABCDEFGHIJKLMNOPQRSTUVWXYZ'' ''abcdefghijklmnopqrstuvwxyz'') c of
        None \<Rightarrow> c
      | Some l \<Rightarrow> l)"

definition toLowerCase :: "string \<Rightarrow> string" where
  "toLowerCase s = map toLowerCase_char s"

text \<open>
  \<^verbatim>\<open>s.split(sep)\<close> for a one-character separator: the segments between the separators,
  in order; the empty string gives one empty segment.
\<close>

fun split_str :: "char \<Rightarrow> string \<Rightarrow> string list" where
  "split_str sep [] = [[]]"
| "split_str sep (c # cs) =
     (if c = sep then [] # split_str sep cs
      else (case split_str sep cs of
              [] \<Rightarrow> [[c]]
            | seg # segs \<Rightarrow> (c # seg) # segs))"

text \<open>\<^verbatim>\<open>xs.pop()\<close> read for its value: the last element, \<^verbatim>\<open>undefined\<close> on an empty array.\<close>

definition pop :: "'a list \<Rightarrow> 'a option" where
  "pop xs = (if xs = [] then None else Some (last xs))"

subsection \<open>\<^verbatim>\<open>getModelType\<close>\<close>

datatype ModelType = GLTF | GLB | OBJ | FBX

datatype JSError = Error string

text \<open>
  \<^verbatim>\<open>
  const getModelType = (filename: string): ModelType => {
    const extension = filename.split('.').pop()?.toLowerCase();
    switch (extension) {
      case 'obj': return 'obj';
      case 'fbx': return 'fbx';
      case 'gltf': return 'gltf';
      case 'glb': return 'glb';
      default: throw new Error(`Unsupported file type: ${extension}`);
    }
  };
  \<close>
  The thrown error is the left summand; a template literal prints \<^verbatim>\<open>undefined\<close> by name.
\<close>

definition getModelType :: "string \<Rightarrow> JSError + ModelType" where
  "getModelType filename =
     (let extension = map_option toLowerCase (pop (split_str CHR ''.'' filename)) in
      if extension = Some ''obj'' then Inr OBJ
      else if extension = Some ''fbx'' then Inr FBX
      else if extension = Some ''gltf'' then Inr GLTF
      else if extension = Some ''glb'' then Inr GLB
      else Inl (Error (''Unsupported file type: '' @
                 (case extension of None \<Rightarrow> ''undefined'' | Some e \<Rightarrow> e))))"

text \<open>
  The words of the specification, for comparison with the code: the final dot-separated
  segment of a name is what follows its last dot (the whole name when it has no dot),
  and two strings are equal case-insensitively when they agree letter by letter once
  case is ignored.
\<close>

definition final_segment :: "string \<Rightarrow> string" where
  "final_segment s = rev (takeWhile (\<lambda>c. c \<noteq> CHR ''.'') (rev s))"

definition eq_ignoring_case :: "string \<Rightarrow> string \<Rightarrow> bool" where
  "eq_ignoring_case s t = list_all2 (\<lambda>a b. toLowerCase_char a = toLowerCase_char b) s t"

subsection \<open>Vectors and bounding boxes of the rendering library\<close>

text \<open>
  \<^verbatim>\<open>THREE.Vector3\<close> with the operations the component uses. The fields are named
  \<open>vx\<close>, \<open>vy\<close>, \<open>vz\<close> for the library's \<^verbatim>\<open>x\<close>, \<^verbatim>\<open>y\<close>, \<^verbatim>\<open>z\<close>.
\<close>

datatype Vector3 = Vector3 (vx: real) (vy: real) (vz: real)

definition addVectors :: "Vector3 \<Rightarrow> Vector3 \<Rightarrow> Vector3" where
  "addVectors a b = Vector3 (vx a + vx b) (vy a + vy b) (vz a + vz b)"

definition subVectors :: "Vector3 \<Rightarrow> Vector3 \<Rightarrow> Vector3" where
  "subVectors a b = Vector3 (vx a - vx b) (vy a - vy b) (vz a - vz b)"

definition multiplyScalar :: "Vector3 \<Rightarrow> real \<Rightarrow> Vector3" where
  "multiplyScalar a s = Vector3 (vx a * s) (vy a * s) (vz a * s)"

definition vmin :: "Vector3 \<Rightarrow> Vector3 \<Rightarrow> Vector3" where
  "vmin a b = Vector3 (min (vx a) (vx b)) (min (vy a) (vy b)) (min (vz a) (vz b))"

definition vmax :: "Vector3 \<Rightarrow> Vector3 \<Rightarrow> Vector3" where
  "vmax a b = Vector3 (max (vx a) (vx b)) (max (vy a) (vy b)) (max (vz a) (vz b))"

definition origin :: Vector3 where
  "origin = Vector3 0 0 0"

text \<open>
  \<^verbatim>\<open>THREE.Box3\<close> holds a minimum and a maximum corner. \<^verbatim>\<open>makeEmpty\<close> sets them to
  \<open>(+\<infinity>, -\<infinity>)\<close>, which has no real value: that box is \<open>EmptyBox\<close> here.
  \<^verbatim>\<open>isEmpty\<close> is true for it and for every box whose maximum lies below its minimum on
  an axis; \<^verbatim>\<open>getSize\<close> and \<^verbatim>\<open>getCenter\<close> return the zero vector for an empty box.
\<close>

datatype Box3 = EmptyBox | Box3 Vector3 Vector3

definition isEmpty :: "Box3 \<Rightarrow> bool" where
  "isEmpty b =
     (case b of
        EmptyBox \<Rightarrow> True
      | Box3 lo hi \<Rightarrow> vx hi < vx lo \<or> vy hi < vy lo \<or> vz hi < vz lo)"

definition expandByPoint :: "Vector3 \<Rightarrow> Box3 \<Rightarrow> Box3" where
  "expandByPoint p b =
     (case b of
        EmptyBox \<Rightarrow> Box3 p p
      | Box3 lo hi \<Rightarrow> Box3 (vmin lo p) (vmax hi p))"

definition getSize :: "Box3 \<Rightarrow> Vector3" where
  "getSize b =
     (case b of
        EmptyBox \<Rightarrow> Vector3 0 0 0
      | Box3 lo hi \<Rightarrow> if isEmpty b then Vector3 0 0 0 else subVectors hi lo)"

definition getCenter :: "Box3 \<Rightarrow> Vector3" where
  "getCenter b =
     (case b of
        EmptyBox \<Rightarrow> Vector3 0 0 0
      | Box3 lo hi \<Rightarrow>
          if isEmpty b then Vector3 0 0 0 else multiplyScalar (addVectors lo hi) 0.5)"

subsection \<open>The object graph\<close>

text \<open>
  A loaded model is a tree of \<^verbatim>\<open>THREE.Object3D\<close> nodes. A node carries its position
  relative to its parent, whether it is a \<^verbatim>\<open>THREE.Mesh\<close>, whether it has a skeleton, its
  material, the vertices of its geometry (in its own frame; none when it has no
  geometry) and its children. Nodes are placed by their positions alone: rotations and
  scales are the identity, and the root has no transformed parent.
\<close>

datatype Material =
    MeshStandardMaterial (color: nat) (roughness: real) (metalness: real)
  | LoaderMaterial string

datatype Object3D =
  Object3D (position: Vector3) (isMesh: bool) (skeleton: bool) (material: "Material option")
    (geometry: "Vector3 list") (children: "Object3D list")

text \<open>
  \<^verbatim>\<open>Box3.expandByObject\<close> grows the box by the world-space extent of the node's geometry
  and then by each child; \<^verbatim>\<open>setFromObject\<close> starts from the empty box. The first
  argument is the world position of the node's parent.
\<close>

fun expandByObject :: "Vector3 \<Rightarrow> Object3D \<Rightarrow> Box3 \<Rightarrow> Box3" where
  "expandByObject parent (Object3D p m s mat g cs) b =
     fold (expandByObject (addVectors parent p)) cs
       (fold (\<lambda>v. expandByPoint (addVectors (addVectors parent p) v)) g b)"

definition setFromObject :: "Object3D \<Rightarrow> Box3" where
  "setFromObject obj = expandByObject origin obj EmptyBox"

text \<open>
  \<^verbatim>\<open>obj.traverse(callback)\<close> calls the callback on the node and then on every descendant.
  \<open>traverse\<close> lists the nodes in that order, for callbacks that only read.
\<close>

fun traverse :: "Object3D \<Rightarrow> Object3D list" where
  "traverse (Object3D p m s mat g cs) =
     Object3D p m s mat g cs # concat (map traverse cs)"

text \<open>The three assignments \<^verbatim>\<open>obj.position.x = ...; .y = ...; .z = ...\<close>.\<close>

definition setPosition :: "Object3D \<Rightarrow> real \<Rightarrow> real \<Rightarrow> real \<Rightarrow> Object3D" where
  "setPosition obj px py pz =
     (case obj of Object3D p m s mat g cs \<Rightarrow> Object3D (Vector3 px py pz) m s mat g cs)"

subsection \<open>The camera\<close>

text \<open>
  The camera handed out by \<^verbatim>\<open>useThree()\<close>. The library computes the projection matrix of
  a perspective camera from \<^verbatim>\<open>fov\<close>, \<^verbatim>\<open>aspect\<close>, \<^verbatim>\<open>near\<close> and \<^verbatim>\<open>far\<close> when
  \<^verbatim>\<open>updateProjectionMatrix\<close> is called, and not before: the matrix is represented by the
  values it was last computed from. The field \<open>cam_position\<close> is the camera's
  \<^verbatim>\<open>position\<close>.
\<close>

datatype CameraKind = PerspectiveCamera | OrthographicCamera

record Projection =
  of_fov :: real
  of_aspect :: real
  of_near :: real
  of_far :: real

record Camera =
  kind :: CameraKind
  cam_position :: Vector3
  fov :: real
  aspect :: real
  near :: real
  far :: real
  projectionMatrix :: Projection

definition updateProjectionMatrix :: "Camera \<Rightarrow> Camera" where
  "updateProjectionMatrix c =
     c\<lparr>projectionMatrix :=
         \<lparr>of_fov = fov c, of_aspect = aspect c, of_near = near c, of_far = far c\<rparr>\<rparr>"

text \<open>The assignment \<^verbatim>\<open>camera.position.z = v\<close>.\<close>

definition setPositionZ :: "Camera \<Rightarrow> real \<Rightarrow> Camera" where
  "setPositionZ c v = c\<lparr>cam_position := Vector3 (vx (cam_position c)) (vy (cam_position c)) v\<rparr>"

text \<open>
  The camera that \<^verbatim>\<open><Canvas camera={{ position: [0, 0, 10], fov: 45, near: 0.1, far: 1000 }}>\<close>
  creates, for a canvas of the given aspect ratio.
\<close>

definition canvasCamera :: "real \<Rightarrow> Camera" where
  "canvasCamera a =
     \<lparr>kind = PerspectiveCamera, cam_position = Vector3 0 0 10, fov = 45, aspect = a,
      near = 0.1, far = 1000,
      projectionMatrix = \<lparr>of_fov = 45, of_aspect = a, of_near = 0.1, of_far = 1000\<rparr>\<rparr>"

subsection \<open>The camera fit, once per format\<close>

text \<open>
  The three model components each carry their own copy of the fit. The OBJ component
  runs it in the loader's \<^verbatim>\<open>onLoad\<close> callback, after giving every mesh a default
  material when the loader holds no materials:
  \<^verbatim>\<open>
  if (!objLoader.materials) {
    obj.traverse((child) => {
      if (child instanceof THREE.Mesh) {
        child.material = new THREE.MeshStandardMaterial({
          color: 0xcccccc, roughness: 0.5, metalness: 0.5 });
      }
    });
  }
  const box = new THREE.Box3().setFromObject(obj);
  const size = box.getSize(new THREE.Vector3());
  const center = box.getCenter(new THREE.Vector3());
  obj.position.x = -center.x;
  obj.position.y = -center.y;
  obj.position.z = -center.z;
  const maxDim = Math.max(size.x, size.y, size.z);
  if (camera instanceof PerspectiveCamera) {
    const fov = camera.fov * (Math.PI / 180);
    let cameraZ = Math.abs(maxDim / Math.sin(fov / 2));
    cameraZ *= 1.5;
    camera.position.z = cameraZ;
    const minZ = 0.1;
    const maxZ = cameraZ * 10;
    camera.near = minZ;
    camera.far = maxZ;
    camera.updateProjectionMatrix();
  }
  setModel(obj);
  \<close>
  The quotient has a real value when \<open>sin (fov / 2) \<noteq> 0\<close>; for \<open>fov = 0\<close> JavaScript
  gives \<^verbatim>\<open>Infinity\<close> or \<^verbatim>\<open>NaN\<close>, which the reals do not have.
\<close>

definition defaultMaterial :: Material where
  "defaultMaterial = MeshStandardMaterial 0xcccccc 0.5 0.5"

text \<open>The traversal of the OBJ callback, which replaces the material of every mesh.\<close>

fun assignDefaultMaterial :: "Object3D \<Rightarrow> Object3D" where
  "assignDefaultMaterial (Object3D p m s mat g cs) =
     Object3D p m s (if m then Some defaultMaterial else mat) g
       (map assignDefaultMaterial cs)"

text \<open>The materials of an \<^verbatim>\<open>OBJLoader\<close>: \<^verbatim>\<open>null\<close>, or what \<^verbatim>\<open>setMaterials\<close> stored.\<close>

datatype MaterialCreator = MaterialCreator string

definition OBJModel_onLoad ::
  "MaterialCreator option \<Rightarrow> Object3D \<Rightarrow> Camera \<Rightarrow> Object3D \<times> Camera" where
  "OBJModel_onLoad materials obj0 camera =
     (let obj = (if materials = None then assignDefaultMaterial obj0 else obj0);
          box = setFromObject obj;
          size = getSize box;
          center = getCenter box;
          obj' = setPosition obj (- vx center) (- vy center) (- vz center);
          maxDim = max (vx size) (max (vy size) (vz size))
      in if kind camera = PerspectiveCamera then
           (let fov_rad = fov camera * (pi / 180);
                cameraZ = \<bar>maxDim / sin (fov_rad / 2)\<bar> * 1.5;
                camera1 = setPositionZ camera cameraZ;
                minZ = 0.1;
                maxZ = cameraZ * 10;
                camera2 = camera1\<lparr>near := minZ\<rparr>;
                camera3 = camera2\<lparr>far := maxZ\<rparr>
            in (obj', updateProjectionMatrix camera3))
         else (obj', camera))"

text \<open>
  The FBX component runs the fit in an effect on \<^verbatim>\<open>[fbx, camera]\<close>, under the guard
  \<^verbatim>\<open>if (fbx)\<close>, which an object always passes.
\<close>

definition FBXModel_fit :: "Object3D \<Rightarrow> Camera \<Rightarrow> Object3D \<times> Camera" where
  "FBXModel_fit fbx camera =
     (let box = setFromObject fbx;
          size = getSize box;
          center = getCenter box;
          fbx' = setPosition fbx (- vx center) (- vy center) (- vz center);
          maxDim = max (vx size) (max (vy size) (vz size))
      in if kind camera = PerspectiveCamera then
           (let fov_rad = fov camera * (pi / 180);
                cameraZ = \<bar>maxDim / sin (fov_rad / 2)\<bar> * 1.5;
                camera1 = setPositionZ camera cameraZ;
                minZ = 0.1;
                maxZ = cameraZ * 10;
                camera2 = camera1\<lparr>near := minZ\<rparr>;
                camera3 = camera2\<lparr>far := maxZ\<rparr>
            in (fbx', updateProjectionMatrix camera3))
         else (fbx', camera))"

text \<open>The GLTF/GLB component runs it in an effect on \<^verbatim>\<open>[model, camera]\<close>.\<close>

definition GLTFModel_fit :: "Object3D \<Rightarrow> Camera \<Rightarrow> Object3D \<times> Camera" where
  "GLTFModel_fit model camera =
     (let box = setFromObject model;
          size = getSize box;
          center = getCenter box;
          model' = setPosition model (- vx center) (- vy center) (- vz center);
          maxDim = max (vx size) (max (vy size) (vz size))
      in if kind camera = PerspectiveCamera then
           (let fov_rad = fov camera * (pi / 180);
                cameraZ = \<bar>maxDim / sin (fov_rad / 2)\<bar> * 1.5;
                camera1 = setPositionZ camera cameraZ;
                minZ = 0.1;
                maxZ = cameraZ * 10;
                camera2 = camera1\<lparr>near := minZ\<rparr>;
                camera3 = camera2\<lparr>far := maxZ\<rparr>
            in (model', updateProjectionMatrix camera3))
         else (model', camera))"

text \<open>
  The quantities the claims name, read off an object and a camera: the largest side of
  the bounding box (the code's \<^verbatim>\<open>maxDim\<close>), the distance the code computes (its final
  \<^verbatim>\<open>cameraZ\<close>), and the distance as step 4 of the specification words it.
\<close>

definition maxDim_of :: "Object3D \<Rightarrow> real" where
  "maxDim_of obj =
     (let size = getSize (setFromObject obj) in max (vx size) (max (vy size) (vz size)))"

definition cameraZ_of :: "Object3D \<Rightarrow> Camera \<Rightarrow> real" where
  "cameraZ_of obj camera =
     (let fov_rad = fov camera * (pi / 180) in \<bar>maxDim_of obj / sin (fov_rad / 2)\<bar> * 1.5)"

definition spec_distance :: "Object3D \<Rightarrow> Camera \<Rightarrow> real" where
  "spec_distance obj camera =
     (let fov_rad = fov camera * (pi / 180) in (maxDim_of obj / sin (fov_rad / 2)) * 1.5)"

subsection \<open>Loading an OBJ model and its MTL sidecar\<close>

text \<open>
  The effect of the OBJ component creates an \<^verbatim>\<open>OBJLoader\<close> and, by callbacks, first tries
  the material file and then loads the model. What the loaders and \<^verbatim>\<open>fetch\<close> answer is
  decided outside the component: the network is a parameter. A load either hands its
  result to \<^verbatim>\<open>onLoad\<close> or calls \<^verbatim>\<open>onError\<close>; a \<^verbatim>\<open>HEAD\<close> request resolves with
  \<^verbatim>\<open>response.ok\<close> true or false, or is rejected.
\<close>

datatype 'a LoadResult = Loaded 'a | LoadFailed

datatype HeadResponse = ResponseOk | ResponseNotOk | FetchRejected

record Network =
  mtlLoader_load :: "string \<Rightarrow> MaterialCreator LoadResult"
  objLoader_load :: "string \<Rightarrow> MaterialCreator option \<Rightarrow> Object3D LoadResult"
  fetch_head :: "string \<Rightarrow> HeadResponse"

text \<open>JavaScript truthiness of a \<^verbatim>\<open>string | null\<close>: not \<^verbatim>\<open>null\<close> and not empty.\<close>

definition truthy :: "string option \<Rightarrow> bool" where
  "truthy s = (case s of None \<Rightarrow> False | Some v \<Rightarrow> v \<noteq> [])"

definition startsWith :: "string \<Rightarrow> string \<Rightarrow> bool" where
  "startsWith s p = (take (length p) s = p)"

text \<open>\<^verbatim>\<open>url.replace(/\.obj$/i, '.mtl')\<close>: a final \<^verbatim>\<open>.obj\<close>, in any case, becomes \<^verbatim>\<open>.mtl\<close>.\<close>

definition replace_obj_suffix :: "string \<Rightarrow> string" where
  "replace_obj_suffix s =
     (let n = length s in
      if 4 \<le> n \<and> toLowerCase (drop (n - 4) s) = ''.obj''
      then take (n - 4) s @ ''.mtl''
      else s)"

text \<open>
  \<^verbatim>\<open>loadObj\<close>: load the model with the loader's current materials; on success run the
  callback above and store the object in the component's \<^verbatim>\<open>model\<close> state, on failure
  log the error and leave the state \<^verbatim>\<open>null\<close>. The result is the \<^verbatim>\<open>model\<close> state and
  the camera.
\<close>

definition loadObj ::
  "Network \<Rightarrow> string \<Rightarrow> MaterialCreator option \<Rightarrow> Camera \<Rightarrow> Object3D option \<times> Camera" where
  "loadObj net objUrl materials camera =
     (case objLoader_load net objUrl materials of
        Loaded obj \<Rightarrow>
          (case OBJModel_onLoad materials obj camera of
             (obj', camera') \<Rightarrow> (Some obj', camera'))
      | LoadFailed \<Rightarrow> (None, camera))"

text \<open>
  \<^verbatim>\<open>loadWithMaterial\<close>: load the material file; on success \<^verbatim>\<open>setMaterials\<close> and then
  \<^verbatim>\<open>loadObj\<close>, on error warn and \<^verbatim>\<open>loadObj\<close> all the same.
\<close>

definition loadWithMaterial ::
  "Network \<Rightarrow> string \<Rightarrow> string \<Rightarrow> Camera \<Rightarrow> Object3D option \<times> Camera" where
  "loadWithMaterial net objUrl materialUrl camera =
     (case mtlLoader_load net materialUrl of
        Loaded materials \<Rightarrow> loadObj net objUrl (Some materials) camera
      | LoadFailed \<Rightarrow> loadObj net objUrl None camera)"

text \<open>
  \<^verbatim>\<open>
  if (mtlUrl) {
    loadWithMaterial(mtlUrl);
  } else {
    const autoMtlUrl = url.replace(/\.obj$/i, '.mtl');
    if (url.startsWith('http') || url.startsWith('/')) {
      fetch(autoMtlUrl, { method: 'HEAD' })
        .then(response => {
          if (response.ok) { loadWithMaterial(autoMtlUrl); } else { loadObj(); }
        })
        .catch(() => { loadObj(); });
    } else {
      loadObj();
    }
  }
  \<close>
\<close>

definition OBJModel_effect ::
  "Network \<Rightarrow> string \<Rightarrow> string option \<Rightarrow> Camera \<Rightarrow> Object3D option \<times> Camera" where
  "OBJModel_effect net objUrl materialUrl camera =
     (if truthy materialUrl then loadWithMaterial net objUrl (the materialUrl) camera
      else
        (let autoMtlUrl = replace_obj_suffix objUrl in
         if startsWith objUrl ''http'' \<or> startsWith objUrl ''/'' then
           (case fetch_head net autoMtlUrl of
              ResponseOk \<Rightarrow> loadWithMaterial net objUrl autoMtlUrl camera
            | ResponseNotOk \<Rightarrow> loadObj net objUrl None camera
            | FetchRejected \<Rightarrow> loadObj net objUrl None camera)
         else loadObj net objUrl None camera))"

text \<open>
  The sidecar is missing or unloadable: the material file that was named fails to load;
  or none was named and, for a server URL, the \<^verbatim>\<open>HEAD\<close> request for the file of the same
  name does not succeed or that file fails to load; or none was named and the model is a
  local file, for which no sidecar is looked up.
\<close>

definition mtl_unavailable :: "Network \<Rightarrow> string \<Rightarrow> string option \<Rightarrow> bool" where
  "mtl_unavailable net objUrl materialUrl =
     (if truthy materialUrl then mtlLoader_load net (the materialUrl) = LoadFailed
      else if startsWith objUrl ''http'' \<or> startsWith objUrl ''/'' then
        fetch_head net (replace_obj_suffix objUrl) \<noteq> ResponseOk \<or>
        mtlLoader_load net (replace_obj_suffix objUrl) = LoadFailed
      else True)"

definition has_default_material :: "Object3D \<Rightarrow> bool" where
  "has_default_material obj =
     list_all (\<lambda>child. if isMesh child then material child = Some defaultMaterial else True)
       (traverse obj)"

subsection \<open>What the viewer renders\<close>

text \<open>
  The state of the \<^verbatim>\<open>ModelViewer\<close> component (its \<^verbatim>\<open>useState\<close> hooks) and the elements it
  renders from it. Styles and fixed texts are left out; a component element stands for
  the component with its properties.
\<close>

record ViewerState =
  st_url :: "string option"
  st_type :: "ModelType option"
  st_mtlUrl :: "string option"
  st_showBones :: bool
  st_environmentPreset :: string

datatype Element =
    Canvas "Element list"
  | AmbientLight
  | SpotLight
  | PointLight
  | Suspense "Element list"
  | Stage string "Element list"
  | OrbitControls
  | OBJModel string "string option"
  | FBXModel string bool
  | GLTFModel string string
  | Environment string
  | Primitive string
  | BonesCheckbox bool
  | PresetSelect string "string list"
  | DropPrompt

text \<open>
  \<^verbatim>\<open>
  const ModelLoader = ({ url, type, mtlUrl, showBones, environmentPreset }) => {
    switch (type) {
      case 'obj': return <OBJModel url={url} mtlUrl={mtlUrl} />;
      case 'fbx': return <FBXModel url={url} showBones={showBones} />;
      case 'gltf':
      case 'glb': return <GLTFModel url={url} environmentPreset={environmentPreset} />;
      default: return null;
    }
  };
  \<close>
  A property that is not passed is \<^verbatim>\<open>undefined\<close>, and the component's default applies:
  \<^verbatim>\<open>showBones = false\<close> in \<^verbatim>\<open>FBXModel\<close>, \<^verbatim>\<open>environmentPreset = 'city'\<close> in
  \<^verbatim>\<open>GLTFModel\<close>. The type has the four values only, so the default branch is not reached.
\<close>

definition ModelLoader ::
  "string \<Rightarrow> ModelType \<Rightarrow> string option \<Rightarrow> bool option \<Rightarrow> string option \<Rightarrow> Element" where
  "ModelLoader u t m bones preset =
     (case t of
        OBJ \<Rightarrow> OBJModel u m
      | FBX \<Rightarrow> FBXModel u (case bones of None \<Rightarrow> False | Some b \<Rightarrow> b)
      | GLTF \<Rightarrow> GLTFModel u (case preset of None \<Rightarrow> ''city'' | Some p \<Rightarrow> p)
      | GLB \<Rightarrow> GLTFModel u (case preset of None \<Rightarrow> ''city'' | Some p \<Rightarrow> p))"

text \<open>
  What \<^verbatim>\<open>GLTFModel\<close> returns:
  \<^verbatim>\<open><><Environment preset={environmentPreset as any} /><primitive object={model} /></>\<close>.
\<close>

definition GLTFModel_render :: "string \<Rightarrow> string \<Rightarrow> Element list" where
  "GLTFModel_render u preset = [Environment preset, Primitive u]"

definition environmentPresets :: "string list" where
  "environmentPresets =
     [''sunset'', ''dawn'', ''night'', ''warehouse'', ''forest'', ''apartment'', ''studio'',
      ''city'', ''park'', ''lobby'']"

text \<open>
  The return value of \<^verbatim>\<open>ModelViewer\<close>: under \<^verbatim>\<open>url && type\<close> the canvas, then the
  bones checkbox under \<^verbatim>\<open>type === 'fbx'\<close>, then the preset selector under
  \<^verbatim>\<open>type === 'glb' || type === 'gltf'\<close>; otherwise the drop prompt. The GLTF/GLB branch
  passes \<^verbatim>\<open>environmentPreset\<close> to the loader; the other branch wraps the loader in
  \<^verbatim>\<open><Stage environment="city" ...>\<close> and does not pass it.
\<close>

definition ModelViewer_render :: "ViewerState \<Rightarrow> Element list" where
  "ModelViewer_render s =
     (if truthy (st_url s) \<and> st_type s \<noteq> None then
        (let u = the (st_url s); t = the (st_type s) in
         [Canvas
            [AmbientLight, SpotLight, PointLight,
             Suspense
               [if t = GLB \<or> t = GLTF
                then ModelLoader u t (st_mtlUrl s) (Some (st_showBones s))
                       (Some (st_environmentPreset s))
                else Stage ''city''
                       [ModelLoader u t (st_mtlUrl s) (Some (st_showBones s)) None]],
             OrbitControls]] @
         (if t = FBX then [BonesCheckbox (st_showBones s)] else []) @
         (if t = GLB \<or> t = GLTF
          then [PresetSelect (st_environmentPreset s) environmentPresets]
          else []))
      else [DropPrompt])"

text \<open>Every element of a rendered tree, parents before children.\<close>

fun elements :: "Element \<Rightarrow> Element list" where
  "elements (Canvas es) = Canvas es # concat (map elements es)"
| "elements (Suspense es) = Suspense es # concat (map elements es)"
| "elements (Stage env es) = Stage env es # concat (map elements es)"
| "elements e = [e]"

definition rendered :: "ViewerState \<Rightarrow> Element list" where
  "rendered s = concat (map elements (ModelViewer_render s))"

subsection \<open>The skeleton overlay of the FBX component\<close>

text \<open>
  A \<^verbatim>\<open>THREE.SkeletonHelper\<close> is an object of its own: it is known by the order in which
  it was created, the model it was built for (named by its URL) and its \<^verbatim>\<open>visible\<close>
  flag. Of the scene, the helpers among its children are kept, and the number of
  helpers created so far, so that a new one differs from all before it.
\<close>

datatype SkeletonHelper =
  SkeletonHelper (helper_id: nat) (helper_root: string) (helper_visible: bool)

record Scene =
  helpers :: "SkeletonHelper list"
  allocated :: nat

text \<open>
  The second effect of \<^verbatim>\<open>FBXModel\<close>, on \<^verbatim>\<open>[fbx, scene, showBones]\<close>. The state it works
  on is the scene and the component's \<^verbatim>\<open>skeletonRef\<close>.
  \<^verbatim>\<open>
  if (fbx && scene) {
    if (skeletonRef.current) {
      scene.remove(skeletonRef.current);
      skeletonRef.current = null;
    }
    if (showBones) {
      let hasBones = false;
      fbx.traverse((object) => {
        if (object instanceof THREE.Mesh && object.skeleton) { hasBones = true; }
      });
      if (hasBones) {
        const newSkeleton = new THREE.SkeletonHelper(fbx);
        newSkeleton.visible = true;
        scene.add(newSkeleton);
        skeletonRef.current = newSkeleton;
      }
    }
  }
  \<close>
  Both \<^verbatim>\<open>fbx\<close> and \<^verbatim>\<open>scene\<close> are objects, so the outer guard holds.
\<close>

definition FBXModel_bones_effect ::
  "Object3D \<Rightarrow> string \<Rightarrow> bool \<Rightarrow> Scene \<times> SkeletonHelper option \<Rightarrow>
   Scene \<times> SkeletonHelper option" where
  "FBXModel_bones_effect fbx fbxUrl bones state =
     (case state of (scene0, skeletonRef0) \<Rightarrow>
        (case (case skeletonRef0 of
                 Some h \<Rightarrow> (scene0\<lparr>helpers := remove1 h (helpers scene0)\<rparr>, None)
               | None \<Rightarrow> (scene0, skeletonRef0)) of
           (scene1, skeletonRef1) \<Rightarrow>
             if bones then
               (let hasBones =
                      list_ex (\<lambda>object. isMesh object \<and> skeleton object) (traverse fbx)
                in if hasBones then
                     (let newSkeleton = SkeletonHelper (allocated scene1) fbxUrl True
                      in (scene1\<lparr>helpers := helpers scene1 @ [newSkeleton],
                                 allocated := Suc (allocated scene1)\<rparr>,
                          Some newSkeleton))
                   else (scene1, skeletonRef1))
             else (scene1, skeletonRef1)))"

text \<open>
  The cleanup the effect returns:
  \<^verbatim>\<open>
  if (skeletonRef.current && scene) {
    scene.remove(skeletonRef.current);
    skeletonRef.current = null;
  }
  \<close>
\<close>

definition FBXModel_bones_cleanup ::
  "Scene \<times> SkeletonHelper option \<Rightarrow> Scene \<times> SkeletonHelper option" where
  "FBXModel_bones_cleanup state =
     (case state of (scene0, skeletonRef0) \<Rightarrow>
        (case skeletonRef0 of
           Some h \<Rightarrow> (scene0\<lparr>helpers := remove1 h (helpers scene0)\<rparr>, None)
         | None \<Rightarrow> (scene0, skeletonRef0)))"

text \<open>The model has bones: some node is a mesh with a skeleton.\<close>

definition hasBones_of :: "Object3D \<Rightarrow> bool" where
  "hasBones_of fbx = list_ex (\<lambda>object. isMesh object \<and> skeleton object) (traverse fbx)"

text \<open>
  When the effect and its cleanup run is the framework's part. React runs an effect
  after the component is mounted, and after a render in which a dependency has changed,
  the previous cleanup first; it runs the cleanup when the component is removed. The
  page is the scene together with the mounted \<^verbatim>\<open>FBXModel\<close>, if there is one: the
  dependencies its effect last ran with (the model, named by its URL, and \<^verbatim>\<open>showBones\<close>)
  and its \<^verbatim>\<open>skeletonRef\<close>. \<^verbatim>\<open>useFBX\<close> gives the loaded model of a URL, the same
  object for the same URL.
\<close>

record FBXInstance =
  dep_url :: string
  dep_showBones :: bool
  skeletonRef :: "SkeletonHelper option"

record Page =
  scene :: Scene
  fbxInstance :: "FBXInstance option"

fun fbxmodel_props :: "Element \<Rightarrow> (string \<times> bool) option" where
  "fbxmodel_props (FBXModel u b) = Some (u, b)"
| "fbxmodel_props e = None"

text \<open>The \<^verbatim>\<open>FBXModel\<close> element of the rendered tree, if it has one.\<close>

definition fbx_requested :: "ViewerState \<Rightarrow> (string \<times> bool) option" where
  "fbx_requested s =
     (case List.map_filter fbxmodel_props (rendered s) of
        [] \<Rightarrow> None
      | p # ps \<Rightarrow> Some p)"

definition mount ::
  "(string \<Rightarrow> Object3D) \<Rightarrow> string \<Rightarrow> bool \<Rightarrow> Scene \<times> SkeletonHelper option \<Rightarrow> Page" where
  "mount useFBX u b state =
     (case FBXModel_bones_effect (useFBX u) u b state of
        (sc, r) \<Rightarrow>
          \<lparr>scene = sc,
           fbxInstance = Some \<lparr>dep_url = u, dep_showBones = b, skeletonRef = r\<rparr>\<rparr>)"

text \<open>One render of the viewer in state \<open>s\<close>, committed to the page.\<close>

definition commit :: "(string \<Rightarrow> Object3D) \<Rightarrow> ViewerState \<Rightarrow> Page \<Rightarrow> Page" where
  "commit useFBX s page =
     (case fbxInstance page of
        None \<Rightarrow>
          (case fbx_requested s of
             None \<Rightarrow> page
           | Some (u, b) \<Rightarrow> mount useFBX u b (scene page, None))
      | Some inst \<Rightarrow>
          (case fbx_requested s of
             None \<Rightarrow>
               \<lparr>scene = fst (FBXModel_bones_cleanup (scene page, skeletonRef inst)),
                fbxInstance = None\<rparr>
           | Some (u, b) \<Rightarrow>
               if u = dep_url inst \<and> b = dep_showBones inst then page
               else mount useFBX u b
                      (FBXModel_bones_cleanup (scene page, skeletonRef inst))))"

definition initialPage :: Page where
  "initialPage = \<lparr>scene = \<lparr>helpers = [], allocated = 0\<rparr>, fbxInstance = None\<rparr>"

subsection \<open>Notions used to state the properties\<close>

text \<open>
  What each copy of the fit does to the object: the root position is overwritten with
  the negated centre of the world-space bounding box.
\<close>

definition recentre :: "Object3D \<Rightarrow> Object3D" where
  "recentre obj =
     (let center = getCenter (setFromObject obj)
      in setPosition obj (- vx center) (- vy center) (- vz center))"

definition negated :: "Vector3 \<Rightarrow> Vector3" where
  "negated v = Vector3 (- vx v) (- vy v) (- vz v)"

text \<open>A box moved by a vector; the empty box stays empty.\<close>

definition translate :: "Vector3 \<Rightarrow> Box3 \<Rightarrow> Box3" where
  "translate d b =
     (case b of
        EmptyBox \<Rightarrow> EmptyBox
      | Box3 lo hi \<Rightarrow> Box3 (addVectors d lo) (addVectors d hi))"

text \<open>
  The invariant of the page: without a mounted \<^verbatim>\<open>FBXModel\<close> the scene has no helper;
  with one, the scene has exactly the helper its \<^verbatim>\<open>skeletonRef\<close> holds, and it holds one
  exactly when \<^verbatim>\<open>showBones\<close> is on and the model has bones. The page matches a viewer
  state when the mounted component is the one that state renders.
\<close>

definition page_ok :: "(string \<Rightarrow> Object3D) \<Rightarrow> Page \<Rightarrow> bool" where
  "page_ok useFBX page =
     (case fbxInstance page of
        None \<Rightarrow> helpers (scene page) = []
      | Some inst \<Rightarrow>
          (case skeletonRef inst of
             None \<Rightarrow>
               helpers (scene page) = [] \<and>
               \<not> (dep_showBones inst \<and> hasBones_of (useFBX (dep_url inst)))
           | Some h \<Rightarrow>
               helpers (scene page) = [h] \<and> dep_showBones inst \<and>
               hasBones_of (useFBX (dep_url inst)) \<and>
               helper_root h = dep_url inst \<and> helper_visible h))"

definition page_matches :: "ViewerState \<Rightarrow> Page \<Rightarrow> bool" where
  "page_matches s page =
     (map_option (\<lambda>inst. (dep_url inst, dep_showBones inst)) (fbxInstance page) =
      fbx_requested s)"

subsection \<open>Example inputs\<close>

text \<open>
  A group at the origin holding one mesh at \<open>(1, 0, 0)\<close> whose geometry spans
  \<open>(0, 0, 0)\<close> to \<open>(2, 1, 1)\<close>; a single mesh with the same world-space extent; a
  mesh whose root position is \<open>(1, 0, 0)\<close>; a group holding a skinned mesh; the canvas
  camera after the user has orbited it; a server that has the model but no material
  file; and two states of the viewer.
\<close>

definition unitBox :: Object3D where
  "unitBox =
     Object3D origin False False None []
       [Object3D (Vector3 1 0 0) True False None [Vector3 0 0 0, Vector3 2 1 1] []]"

definition flatBox :: Object3D where
  "flatBox = Object3D origin True False None [Vector3 1 0 0, Vector3 3 1 1] []"

definition shiftedBox :: Object3D where
  "shiftedBox =
     Object3D (Vector3 1 0 0) True False None [Vector3 0 0 0, Vector3 2 2 2] []"

definition riggedModel :: Object3D where
  "riggedModel =
     Object3D origin False False None []
       [Object3D origin True True None [Vector3 0 0 0, Vector3 1 2 1] []]"

definition orbitedCamera :: Camera where
  "orbitedCamera = (canvasCamera 2)\<lparr>cam_position := Vector3 6 0 8\<rparr>"

definition sidecarless :: Network where
  "sidecarless =
     \<lparr>mtlLoader_load = (\<lambda>u. LoadFailed),
      objLoader_load =
        (\<lambda>u ms. if u = ''/models/chair.obj'' then Loaded unitBox else LoadFailed),
      fetch_head = (\<lambda>u. ResponseNotOk)\<rparr>"

definition glbState :: ViewerState where
  "glbState =
     \<lparr>st_url = Some ''blob:1'', st_type = Some GLB, st_mtlUrl = None,
      st_showBones = False, st_environmentPreset = ''sunset''\<rparr>"

definition fbxState :: ViewerState where
  "fbxState =
     \<lparr>st_url = Some ''blob:2'', st_type = Some FBX, st_mtlUrl = None,
      st_showBones = True, st_environmentPreset = ''sunset''\<rparr>"

section \<open>Properties\<close>

subsection \<open>The loader is picked by extension\<close>

lemma split_str_not_Nil: "split_str sep s \<noteq> []"
  by (induction s) (auto split: list.splits)

lemma split_str_no_sep: "sep \<notin> set s \<Longrightarrow> split_str sep s = [s]"
  by (induction s) auto

lemma split_str_with_sep: "sep \<in> set s \<Longrightarrow> tl (split_str sep s) \<noteq> []"
  by (induction s) (auto simp: split_str_not_Nil split: list.splits)

lemma last_split_str:
  "last (split_str sep s) = rev (takeWhile (\<lambda>c. c \<noteq> sep) (rev s))"
proof (induction s)
  case Nil
  show ?case by simp
next
  case (Cons c cs)
  show ?case
  proof (cases "sep \<in> set cs")
    case True
    then have more: "tl (split_str sep cs) \<noteq> []"
      by (rule split_str_with_sep)
    have "last (split_str sep (c # cs)) = last (split_str sep cs)"
      using more by (auto simp: split_str_not_Nil split: list.splits)
    also have "\<dots> = rev (takeWhile (\<lambda>c. c \<noteq> sep) (rev cs))"
      by (rule Cons.IH)
    also have "\<dots> = rev (takeWhile (\<lambda>c. c \<noteq> sep) (rev (c # cs)))"
      using True by (auto simp: takeWhile_append)
    finally show ?thesis .
  next
    case False
    then have one: "split_str sep cs = [cs]"
      by (rule split_str_no_sep)
    from False have "\<forall>x\<in>set (rev cs). x \<noteq> sep"
      by auto
    with one show ?thesis
      by (simp add: takeWhile_append)
  qed
qed

lemma pop_split_str: "pop (split_str CHR ''.'' f) = Some (final_segment f)"
  by (simp add: pop_def split_str_not_Nil last_split_str final_segment_def)

lemma eq_ignoring_case_iff: "eq_ignoring_case s t \<longleftrightarrow> toLowerCase s = toLowerCase t"
  unfolding eq_ignoring_case_def toLowerCase_def
proof (induction s arbitrary: t)
  case Nil
  show ?case by auto
next
  case (Cons a s)
  show ?case by (cases t) (auto simp: Cons.IH)
qed

lemma toLowerCase_extensions:
  "toLowerCase ''obj'' = ''obj''" "toLowerCase ''fbx'' = ''fbx''"
  "toLowerCase ''gltf'' = ''gltf''" "toLowerCase ''glb'' = ''glb''"
  by (simp_all add: toLowerCase_def toLowerCase_char_def)

lemma getModelType_cases:
  "getModelType f =
     (let e = toLowerCase (final_segment f) in
      if e = ''obj'' then Inr OBJ
      else if e = ''fbx'' then Inr FBX
      else if e = ''gltf'' then Inr GLTF
      else if e = ''glb'' then Inr GLB
      else Inl (Error (''Unsupported file type: '' @ e)))"
  by (simp add: getModelType_def pop_split_str Let_def)

text \<open>
  C6. \<^verbatim>\<open>getModelType\<close> returns \<^verbatim>\<open>'obj'\<close>, \<^verbatim>\<open>'fbx'\<close>, \<^verbatim>\<open>'gltf'\<close> or \<^verbatim>\<open>'glb'\<close> exactly when
  the final dot-separated segment of the file name is that extension, case ignored, and
  throws an \<^verbatim>\<open>Unsupported file type\<close> error, naming the lower-cased segment, for every
  other file name.
\<close>

theorem getModelType_by_extension:
  "(getModelType f = Inr OBJ \<longleftrightarrow> eq_ignoring_case (final_segment f) ''obj'') \<and>
   (getModelType f = Inr FBX \<longleftrightarrow> eq_ignoring_case (final_segment f) ''fbx'') \<and>
   (getModelType f = Inr GLTF \<longleftrightarrow> eq_ignoring_case (final_segment f) ''gltf'') \<and>
   (getModelType f = Inr GLB \<longleftrightarrow> eq_ignoring_case (final_segment f) ''glb'') \<and>
   (\<not> eq_ignoring_case (final_segment f) ''obj'' \<and>
    \<not> eq_ignoring_case (final_segment f) ''fbx'' \<and>
    \<not> eq_ignoring_case (final_segment f) ''gltf'' \<and>
    \<not> eq_ignoring_case (final_segment f) ''glb'' \<longrightarrow>
      getModelType f =
        Inl (Error (''Unsupported file type: '' @ toLowerCase (final_segment f))))"
  by (simp add: getModelType_cases eq_ignoring_case_iff toLowerCase_extensions Let_def)

theorem getModelType_by_extension_witness:
  "getModelType ''Scene.v2.GLB'' = Inr GLB \<and>
   getModelType ''notes.txt'' = Inl (Error ''Unsupported file type: txt'')"
proof -
  have glb: "eq_ignoring_case (final_segment ''Scene.v2.GLB'') ''glb''"
    by (simp add: eq_ignoring_case_def final_segment_def toLowerCase_char_def)
  have unsupported:
    "\<not> eq_ignoring_case (final_segment ''notes.txt'') ''obj''"
    "\<not> eq_ignoring_case (final_segment ''notes.txt'') ''fbx''"
    "\<not> eq_ignoring_case (final_segment ''notes.txt'') ''gltf''"
    "\<not> eq_ignoring_case (final_segment ''notes.txt'') ''glb''"
    by (simp_all add: eq_ignoring_case_def final_segment_def toLowerCase_char_def)
  have low: "toLowerCase (final_segment ''notes.txt'') = ''txt''"
    by (simp add: final_segment_def toLowerCase_def toLowerCase_char_def)
  from glb have "getModelType ''Scene.v2.GLB'' = Inr GLB"
    using getModelType_by_extension [of "''Scene.v2.GLB''"] by blast
  moreover from unsupported have "getModelType ''notes.txt'' =
      Inl (Error (''Unsupported file type: '' @ toLowerCase (final_segment ''notes.txt'')))"
    using getModelType_by_extension [of "''notes.txt''"] by blast
  ultimately show ?thesis
    by (simp add: low)
qed

subsection \<open>Bounding boxes and the root position\<close>

lemma addVectors_assoc: "addVectors (addVectors a b) c = addVectors a (addVectors b c)"
  by (simp add: addVectors_def)

lemma addVectors_origin [simp]: "addVectors origin a = a" "addVectors a origin = a"
  by (simp_all add: addVectors_def origin_def)

lemma translate_EmptyBox [simp]: "translate d EmptyBox = EmptyBox"
  by (simp add: translate_def)

lemma isEmpty_translate [simp]: "isEmpty (translate d b) = isEmpty b"
  by (cases b) (simp_all add: isEmpty_def translate_def addVectors_def)

lemma expandByPoint_translate:
  "expandByPoint (addVectors d p) (translate d b) = translate d (expandByPoint p b)"
  by (cases b)
    (auto simp: expandByPoint_def translate_def addVectors_def vmin_def vmax_def
      min_def max_def)

lemma fold_points_translate:
  "fold (\<lambda>v. expandByPoint (addVectors (addVectors d w) v)) g (translate d b) =
   translate d (fold (\<lambda>v. expandByPoint (addVectors w v)) g b)"
  by (induction g arbitrary: b) (simp_all add: addVectors_assoc expandByPoint_translate)

text \<open>Moving the parent moves the box: induction on the tree, then on the children.\<close>

lemma expandByObject_translate:
  "expandByObject (addVectors d parent) obj (translate d b) =
   translate d (expandByObject parent obj b)"
proof (induction obj arbitrary: parent b)
  case (Object3D p m s mat g cs)
  have kids: "fold (expandByObject (addVectors d w)) cs (translate d c) =
      translate d (fold (expandByObject w) cs c)" for w c
    using Object3D.IH
  proof (induction cs arbitrary: c)
    case Nil
    show ?case by simp
  next
    case (Cons k ks)
    then show ?case by simp
  qed
  have eq: "addVectors (addVectors d parent) p = addVectors d (addVectors parent p)"
    by (rule addVectors_assoc)
  show ?case
    by (simp only: expandByObject.simps eq fold_points_translate kids)
qed

lemma setFromObject_position:
  "setFromObject (Object3D q m s mat g cs) =
     translate q (setFromObject (Object3D origin m s mat g cs))"
proof -
  have "expandByObject (addVectors q origin) (Object3D origin m s mat g cs)
        (translate q EmptyBox) =
      translate q (expandByObject origin (Object3D origin m s mat g cs) EmptyBox)"
    by (rule expandByObject_translate)
  then show ?thesis
    by (simp add: setFromObject_def)
qed

lemma getCenter_translate:
  "getCenter (translate d b) =
     (if isEmpty b then Vector3 0 0 0 else addVectors d (getCenter b))"
proof (cases b)
  case EmptyBox
  then show ?thesis by (simp add: getCenter_def isEmpty_def)
next
  case (Box3 lo hi)
  have "getCenter (translate d (Box3 lo hi)) =
      (if isEmpty (translate d (Box3 lo hi)) then Vector3 0 0 0
       else multiplyScalar (addVectors (addVectors d lo) (addVectors d hi)) 0.5)"
    by (simp add: getCenter_def translate_def)
  then show ?thesis
    using Box3 by (simp add: getCenter_def addVectors_def multiplyScalar_def algebra_simps)
qed

lemma getSize_nonneg:
  "0 \<le> vx (getSize b)" "0 \<le> vy (getSize b)" "0 \<le> vz (getSize b)"
  by (cases b; simp add: getSize_def isEmpty_def subVectors_def)+

lemma maxDim_of_nonneg: "0 \<le> maxDim_of obj"
  by (simp add: maxDim_of_def Let_def getSize_nonneg le_max_iff_disj)

text \<open>Materials do not enter the bounding box.\<close>

lemma expandByObject_assignDefaultMaterial:
  "expandByObject parent (assignDefaultMaterial obj) b = expandByObject parent obj b"
proof (induction obj arbitrary: parent b)
  case (Object3D p m s mat g cs)
  have "fold (expandByObject w) (map assignDefaultMaterial cs) c =
      fold (expandByObject w) cs c" for w c
    using Object3D.IH by (induction cs arbitrary: c) simp_all
  then show ?case by simp
qed

lemma setFromObject_assignDefaultMaterial:
  "setFromObject (assignDefaultMaterial obj) = setFromObject obj"
  by (simp add: setFromObject_def expandByObject_assignDefaultMaterial)

lemma position_assignDefaultMaterial [simp]:
  "position (assignDefaultMaterial obj) = position obj"
  by (cases obj) simp

lemma position_setPosition [simp]: "position (setPosition obj a b c) = Vector3 a b c"
  by (cases obj) (simp add: setPosition_def)

lemma position_recentre:
  "position (recentre obj) = negated (getCenter (setFromObject obj))"
  by (simp add: recentre_def negated_def Let_def)

lemma recentre_assignDefaultMaterial:
  "position (recentre (assignDefaultMaterial obj)) = position (recentre obj)"
  by (simp add: position_recentre setFromObject_assignDefaultMaterial)

lemma isEmpty_setFromObject_recentre:
  "isEmpty (setFromObject (recentre obj)) = isEmpty (setFromObject obj)"
proof (cases obj)
  case (Object3D p m s mat g cs)
  have "isEmpty (setFromObject (Object3D q m s mat g cs)) =
      isEmpty (setFromObject (Object3D origin m s mat g cs))" for q
    by (subst setFromObject_position) simp
  then have "isEmpty (setFromObject (Object3D q m s mat g cs)) =
      isEmpty (setFromObject (Object3D p m s mat g cs))" for q
    by metis
  then show ?thesis
    using Object3D by (simp add: recentre_def setPosition_def Let_def)
qed

text \<open>
  The centre of the box after the fit is the negated root position from before it: the
  assignment \<^verbatim>\<open>position = -center\<close> replaces the old position, which the box contained.
\<close>

lemma getCenter_recentre:
  "getCenter (setFromObject (recentre obj)) =
     (if isEmpty (setFromObject obj) then Vector3 0 0 0 else negated (position obj))"
proof (cases obj)
  case (Object3D p m s mat g cs)
  define B0 where "B0 = setFromObject (Object3D origin m s mat g cs)"
  have box: "setFromObject (Object3D q m s mat g cs) = translate q B0" for q
    unfolding B0_def by (rule setFromObject_position)
  show ?thesis
  proof (cases "isEmpty B0")
    case True
    then show ?thesis
      using Object3D
      by (simp add: recentre_def setPosition_def box getCenter_translate Let_def)
  next
    case False
    then show ?thesis
      using Object3D
      by (simp add: recentre_def setPosition_def box getCenter_translate Let_def
          negated_def addVectors_def)
  qed
qed

lemma centred_when_root_at_origin:
  "position obj = origin \<Longrightarrow> getCenter (setFromObject (recentre obj)) = origin"
  by (simp add: getCenter_recentre negated_def origin_def)

subsection \<open>What each copy of the fit returns\<close>

lemma snd_OBJModel_onLoad:
  "snd (OBJModel_onLoad ms obj c) =
     (if kind c = PerspectiveCamera
      then updateProjectionMatrix
             ((setPositionZ c (cameraZ_of obj c))
                \<lparr>near := 0.1, far := cameraZ_of obj c * 10\<rparr>)
      else c)"
  by (simp add: OBJModel_onLoad_def cameraZ_of_def maxDim_of_def Let_def
      setFromObject_assignDefaultMaterial)

lemma snd_FBXModel_fit:
  "snd (FBXModel_fit obj c) =
     (if kind c = PerspectiveCamera
      then updateProjectionMatrix
             ((setPositionZ c (cameraZ_of obj c))
                \<lparr>near := 0.1, far := cameraZ_of obj c * 10\<rparr>)
      else c)"
  by (simp add: FBXModel_fit_def cameraZ_of_def maxDim_of_def Let_def)

lemma snd_GLTFModel_fit:
  "snd (GLTFModel_fit obj c) =
     (if kind c = PerspectiveCamera
      then updateProjectionMatrix
             ((setPositionZ c (cameraZ_of obj c))
                \<lparr>near := 0.1, far := cameraZ_of obj c * 10\<rparr>)
      else c)"
  by (simp add: GLTFModel_fit_def cameraZ_of_def maxDim_of_def Let_def)

lemma fst_OBJModel_onLoad:
  "fst (OBJModel_onLoad ms obj c) =
     recentre (if ms = None then assignDefaultMaterial obj else obj)"
  by (simp add: OBJModel_onLoad_def recentre_def Let_def)

lemma fst_FBXModel_fit: "fst (FBXModel_fit obj c) = recentre obj"
  by (simp add: FBXModel_fit_def recentre_def Let_def)

lemma fst_GLTFModel_fit: "fst (GLTFModel_fit obj c) = recentre obj"
  by (simp add: GLTFModel_fit_def recentre_def Let_def)

lemma unitBox_facts:
  "setFromObject unitBox = Box3 (Vector3 1 0 0) (Vector3 3 1 1)"
  "\<not> isEmpty (setFromObject unitBox)"
  "getCenter (setFromObject unitBox) = Vector3 2 0.5 0.5"
  "position unitBox = Vector3 0 0 0"
  "maxDim_of unitBox = 2"
proof -
  show box: "setFromObject unitBox = Box3 (Vector3 1 0 0) (Vector3 3 1 1)"
    by (simp add: unitBox_def setFromObject_def origin_def addVectors_def expandByPoint_def
        vmin_def vmax_def)
  show "\<not> isEmpty (setFromObject unitBox)"
    by (simp add: box isEmpty_def)
  show "getCenter (setFromObject unitBox) = Vector3 2 0.5 0.5"
    by (simp add: box getCenter_def isEmpty_def addVectors_def multiplyScalar_def)
  show "position unitBox = Vector3 0 0 0"
    by (simp add: unitBox_def origin_def)
  show "maxDim_of unitBox = 2"
    by (simp add: maxDim_of_def box getSize_def isEmpty_def subVectors_def)
qed

lemma flatBox_box: "setFromObject flatBox = Box3 (Vector3 1 0 0) (Vector3 3 1 1)"
  by (simp add: flatBox_def setFromObject_def origin_def addVectors_def expandByPoint_def
      vmin_def vmax_def)

lemma shiftedBox_facts:
  "setFromObject shiftedBox = Box3 (Vector3 1 0 0) (Vector3 3 2 2)"
  "\<not> isEmpty (setFromObject shiftedBox)"
  "position shiftedBox = Vector3 1 0 0"
proof -
  show box: "setFromObject shiftedBox = Box3 (Vector3 1 0 0) (Vector3 3 2 2)"
    by (simp add: shiftedBox_def setFromObject_def origin_def addVectors_def
        expandByPoint_def vmin_def vmax_def)
  show "\<not> isEmpty (setFromObject shiftedBox)"
    by (simp add: box isEmpty_def)
  show "position shiftedBox = Vector3 1 0 0"
    by (simp add: shiftedBox_def)
qed

lemma example_cameras:
  "kind (canvasCamera a) = PerspectiveCamera" "fov (canvasCamera a) = 45"
  "cam_position (canvasCamera a) = Vector3 0 0 10" "aspect (canvasCamera a) = a"
  "kind orbitedCamera = PerspectiveCamera" "fov orbitedCamera = 45"
  "cam_position orbitedCamera = Vector3 6 0 8" "aspect orbitedCamera = 2"
  by (simp_all add: canvasCamera_def orbitedCamera_def)

subsection \<open>The camera distance\<close>

lemma sin_half_fov_pos:
  assumes "0 < (f::real)" "f < 360"
  shows "0 < sin (f * (pi / 180) / 2)"
proof -
  have "0 < f * (pi / 180) / 2" using assms by simp
  moreover have "f * (pi / 180) / 2 < pi" using assms by simp
  ultimately show ?thesis by (rule sin_gt_zero)
qed

text \<open>
  The code takes the absolute value of the quotient. The largest side of a box is never
  negative, so for a field of view strictly between 0 and 360 degrees the quotient is
  not negative and the absolute value changes nothing.
\<close>

lemma cameraZ_of_spec:
  assumes "0 < fov c" "fov c < 360"
  shows "cameraZ_of obj c = spec_distance obj c"
proof -
  have "0 \<le> maxDim_of obj / sin (fov c * (pi / 180) / 2)"
    using maxDim_of_nonneg [of obj] sin_half_fov_pos [OF assms] by simp
  then have "\<bar>maxDim_of obj / sin (fov c * (pi / 180) / 2)\<bar> =
      maxDim_of obj / sin (fov c * (pi / 180) / 2)"
    by (rule abs_of_nonneg)
  then show ?thesis
    unfolding cameraZ_of_def spec_distance_def Let_def by (rule arg_cong)
qed

lemma cameraZ_of_cong:
  "setFromObject a = setFromObject b \<Longrightarrow> fov ca = fov cb \<Longrightarrow>
   cameraZ_of a ca = cameraZ_of b cb"
  by (simp add: cameraZ_of_def maxDim_of_def)

text \<open>
  C1. With \<open>maxDim\<close> the largest of the bounding box's width, height and depth and
  \<open>fov\<close> the perspective camera's vertical field of view in radians, the distance the
  fit gives the camera is \<open>(maxDim / sin (fov / 2)) * 1.5\<close>, in each of the three load
  paths. The field of view of a perspective camera lies strictly between 0 and 360
  degrees (the viewer's is 45).
\<close>

theorem camera_distance_formula:
  assumes "kind c = PerspectiveCamera" and "0 < fov c" and "fov c < 360"
  shows "vz (cam_position (snd (OBJModel_onLoad ms obj c))) = spec_distance obj c \<and>
         vz (cam_position (snd (FBXModel_fit obj c))) = spec_distance obj c \<and>
         vz (cam_position (snd (GLTFModel_fit obj c))) = spec_distance obj c"
  using assms
  by (simp add: snd_OBJModel_onLoad snd_FBXModel_fit snd_GLTFModel_fit cameraZ_of_spec
      updateProjectionMatrix_def setPositionZ_def)

theorem camera_distance_formula_witness:
  "kind (canvasCamera 2) = PerspectiveCamera \<and>
   0 < fov (canvasCamera 2) \<and> fov (canvasCamera 2) < 360 \<and>
   vz (cam_position (snd (OBJModel_onLoad None unitBox (canvasCamera 2)))) =
     (2 / sin (45 * (pi / 180) / 2)) * 1.5 \<and>
   vz (cam_position (snd (FBXModel_fit unitBox (canvasCamera 2)))) =
     (2 / sin (45 * (pi / 180) / 2)) * 1.5 \<and>
   vz (cam_position (snd (GLTFModel_fit unitBox (canvasCamera 2)))) =
     (2 / sin (45 * (pi / 180) / 2)) * 1.5"
proof -
  have k: "kind (canvasCamera 2) = PerspectiveCamera"
    and lo: "0 < fov (canvasCamera 2)" and hi: "fov (canvasCamera 2) < 360"
    by (simp_all add: canvasCamera_def)
  have "spec_distance unitBox (canvasCamera 2) = (2 / sin (45 * (pi / 180) / 2)) * 1.5"
    by (simp add: spec_distance_def unitBox_facts(5) canvasCamera_def)
  with camera_distance_formula [OF k lo hi] k lo hi show ?thesis
    by simp
qed

subsection \<open>One fit for all formats\<close>

text \<open>
  C2. The fit is the same computation in the OBJ, FBX and GLTF/GLB paths: on the same
  object and camera the three return the same camera and put the object at the same
  position, and what they write (the object's position, the camera's \<open>z\<close>, near and
  far) is determined by the bounding box and the field of view alone, so equal boxes and
  equal fields of view give equal results whatever the path.
\<close>

theorem fit_identical_across_formats:
  "snd (OBJModel_onLoad ms obj c) = snd (FBXModel_fit obj c) \<and>
   snd (FBXModel_fit obj c) = snd (GLTFModel_fit obj c) \<and>
   position (fst (OBJModel_onLoad ms obj c)) = position (fst (FBXModel_fit obj c)) \<and>
   fst (FBXModel_fit obj c) = fst (GLTFModel_fit obj c) \<and>
   (setFromObject a = setFromObject b \<and> fov ca = fov cb \<and>
    kind ca = PerspectiveCamera \<and> kind cb = PerspectiveCamera \<longrightarrow>
      position (fst (OBJModel_onLoad ms a ca)) = position (fst (GLTFModel_fit b cb)) \<and>
      vz (cam_position (snd (OBJModel_onLoad ms a ca))) =
        vz (cam_position (snd (GLTFModel_fit b cb))) \<and>
      near (snd (OBJModel_onLoad ms a ca)) = near (snd (GLTFModel_fit b cb)) \<and>
      far (snd (OBJModel_onLoad ms a ca)) = far (snd (GLTFModel_fit b cb)) \<and>
      position (fst (FBXModel_fit a ca)) = position (fst (GLTFModel_fit b cb)) \<and>
      vz (cam_position (snd (FBXModel_fit a ca))) =
        vz (cam_position (snd (GLTFModel_fit b cb))) \<and>
      near (snd (FBXModel_fit a ca)) = near (snd (GLTFModel_fit b cb)) \<and>
      far (snd (FBXModel_fit a ca)) = far (snd (GLTFModel_fit b cb)))"
proof -
  have same: "snd (OBJModel_onLoad ms obj c) = snd (FBXModel_fit obj c)"
    "snd (FBXModel_fit obj c) = snd (GLTFModel_fit obj c)"
    by (simp_all add: snd_OBJModel_onLoad snd_FBXModel_fit snd_GLTFModel_fit)
  have objs: "position (fst (OBJModel_onLoad ms obj c)) = position (fst (FBXModel_fit obj c))"
    "fst (FBXModel_fit obj c) = fst (GLTFModel_fit obj c)"
    by (simp_all add: fst_OBJModel_onLoad fst_FBXModel_fit fst_GLTFModel_fit
        recentre_assignDefaultMaterial)
  have dep: "position (fst (OBJModel_onLoad ms a ca)) = position (fst (GLTFModel_fit b cb)) \<and>
      vz (cam_position (snd (OBJModel_onLoad ms a ca))) =
        vz (cam_position (snd (GLTFModel_fit b cb))) \<and>
      near (snd (OBJModel_onLoad ms a ca)) = near (snd (GLTFModel_fit b cb)) \<and>
      far (snd (OBJModel_onLoad ms a ca)) = far (snd (GLTFModel_fit b cb)) \<and>
      position (fst (FBXModel_fit a ca)) = position (fst (GLTFModel_fit b cb)) \<and>
      vz (cam_position (snd (FBXModel_fit a ca))) =
        vz (cam_position (snd (GLTFModel_fit b cb))) \<and>
      near (snd (FBXModel_fit a ca)) = near (snd (GLTFModel_fit b cb)) \<and>
      far (snd (FBXModel_fit a ca)) = far (snd (GLTFModel_fit b cb))"
    if h: "setFromObject a = setFromObject b" "fov ca = fov cb"
      "kind ca = PerspectiveCamera" "kind cb = PerspectiveCamera"
  proof -
    have z: "cameraZ_of a ca = cameraZ_of b cb"
      using h(1,2) by (rule cameraZ_of_cong)
    show ?thesis
      using h
      by (simp add: snd_OBJModel_onLoad snd_FBXModel_fit snd_GLTFModel_fit
          fst_OBJModel_onLoad fst_FBXModel_fit fst_GLTFModel_fit z
          position_recentre setFromObject_assignDefaultMaterial
          updateProjectionMatrix_def setPositionZ_def)
  qed
  from same objs dep show ?thesis by blast
qed

theorem fit_identical_across_formats_witness:
  "snd (OBJModel_onLoad None unitBox (canvasCamera 2)) =
     snd (FBXModel_fit unitBox (canvasCamera 2)) \<and>
   snd (FBXModel_fit unitBox (canvasCamera 2)) =
     snd (GLTFModel_fit unitBox (canvasCamera 2)) \<and>
   setFromObject unitBox = setFromObject flatBox \<and>
   fov (canvasCamera 2) = fov orbitedCamera \<and>
   kind (canvasCamera 2) = PerspectiveCamera \<and> kind orbitedCamera = PerspectiveCamera \<and>
   position (fst (OBJModel_onLoad None unitBox (canvasCamera 2))) =
     position (fst (GLTFModel_fit flatBox orbitedCamera)) \<and>
   far (snd (FBXModel_fit unitBox (canvasCamera 2))) =
     far (snd (GLTFModel_fit flatBox orbitedCamera))"
proof -
  have h: "setFromObject unitBox = setFromObject flatBox"
    "fov (canvasCamera 2) = fov orbitedCamera"
    "kind (canvasCamera 2) = PerspectiveCamera" "kind orbitedCamera = PerspectiveCamera"
    by (simp_all add: unitBox_facts(1) flatBox_box example_cameras)
  show ?thesis
    using fit_identical_across_formats
      [of None unitBox "canvasCamera 2" unitBox flatBox "canvasCamera 2" orbitedCamera] h
    by blast
qed

subsection \<open>Centring the object\<close>

text \<open>A second run of the fit on the object it has just centred moves it back.\<close>

lemma second_fit_undoes_first:
  "getCenter (setFromObject (fst (FBXModel_fit unitBox (canvasCamera 2)))) = Vector3 0 0 0 \<and>
   getCenter (setFromObject (fst (FBXModel_fit (fst (FBXModel_fit unitBox (canvasCamera 2)))
       (snd (FBXModel_fit unitBox (canvasCamera 2)))))) = Vector3 2 0.5 0.5"
  by (simp add: fst_FBXModel_fit getCenter_recentre isEmpty_setFromObject_recentre
      position_recentre unitBox_facts(2,3,4) negated_def)

text \<open>
  C3. After the fit the centre of the object's bounding box is claimed to sit at the
  world origin, also for an object whose root position was not zero before. The code
  assigns the negated centre to the root position instead of moving the root by it: for
  the mesh with root position \<open>(1, 0, 0)\<close> and world-space centre \<open>(2, 1, 1)\<close> the
  centre ends at \<open>(-1, 0, 0)\<close> in every path, not at the origin.
\<close>

theorem fit_leaves_shifted_root_off_centre:
  "position shiftedBox = Vector3 1 0 0 \<and>
   getCenter (setFromObject shiftedBox) = Vector3 2 1 1 \<and>
   getCenter (setFromObject (fst (OBJModel_onLoad None shiftedBox (canvasCamera 2)))) =
     Vector3 (- 1) 0 0 \<and>
   getCenter (setFromObject (fst (FBXModel_fit shiftedBox (canvasCamera 2)))) =
     Vector3 (- 1) 0 0 \<and>
   getCenter (setFromObject (fst (GLTFModel_fit shiftedBox (canvasCamera 2)))) =
     Vector3 (- 1) 0 0"
proof -
  have "getCenter (setFromObject shiftedBox) = Vector3 2 1 1"
    by (simp add: shiftedBox_facts(1) getCenter_def isEmpty_def addVectors_def
        multiplyScalar_def)
  then show ?thesis
    by (simp add: fst_OBJModel_onLoad fst_FBXModel_fit fst_GLTFModel_fit getCenter_recentre
        setFromObject_assignDefaultMaterial shiftedBox_facts(2,3) negated_def)
qed

subsection \<open>The camera position\<close>

text \<open>
  C4 as stated: after the fit the camera is at \<open>(0, 0, d)\<close>, also when the user has
  orbited the camera away from the z-axis before the load. The code assigns only
  \<open>position.z\<close>: the orbited camera at \<open>(6, 0, 8)\<close> keeps its \<open>x = 6\<close>.
\<close>

theorem camera_position_after_fit_counterexample:
  "cam_position (snd (OBJModel_onLoad None unitBox orbitedCamera)) \<noteq>
     Vector3 0 0 (cameraZ_of unitBox orbitedCamera) \<and>
   cam_position (snd (FBXModel_fit unitBox orbitedCamera)) \<noteq>
     Vector3 0 0 (cameraZ_of unitBox orbitedCamera) \<and>
   cam_position (snd (GLTFModel_fit unitBox orbitedCamera)) \<noteq>
     Vector3 0 0 (cameraZ_of unitBox orbitedCamera)"
  by (simp add: snd_OBJModel_onLoad snd_FBXModel_fit snd_GLTFModel_fit orbitedCamera_def
      canvasCamera_def updateProjectionMatrix_def setPositionZ_def)

text \<open>
  C4, amended. After the fit a perspective camera has \<open>position.z = d\<close>, the computed
  distance, and the \<open>position.x\<close> and \<open>position.y\<close> it had before; so it is at
  \<open>(0, 0, d)\<close> exactly when it was on the z-axis before the fit, as the camera the
  canvas creates is.
\<close>

theorem camera_position_after_fit:
  assumes "kind c = PerspectiveCamera"
  shows "cam_position (snd (OBJModel_onLoad ms obj c)) =
           Vector3 (vx (cam_position c)) (vy (cam_position c)) (cameraZ_of obj c) \<and>
         cam_position (snd (FBXModel_fit obj c)) =
           Vector3 (vx (cam_position c)) (vy (cam_position c)) (cameraZ_of obj c) \<and>
         cam_position (snd (GLTFModel_fit obj c)) =
           Vector3 (vx (cam_position c)) (vy (cam_position c)) (cameraZ_of obj c)"
  using assms
  by (simp add: snd_OBJModel_onLoad snd_FBXModel_fit snd_GLTFModel_fit
      updateProjectionMatrix_def setPositionZ_def)

theorem camera_position_after_fit_witness:
  "kind (canvasCamera 2) = PerspectiveCamera \<and>
   cam_position (snd (OBJModel_onLoad None unitBox (canvasCamera 2))) =
     Vector3 0 0 (cameraZ_of unitBox (canvasCamera 2)) \<and>
   cam_position (snd (FBXModel_fit unitBox orbitedCamera)) =
     Vector3 6 0 (cameraZ_of unitBox orbitedCamera)"
proof -
  have k: "kind (canvasCamera 2) = PerspectiveCamera" "kind orbitedCamera = PerspectiveCamera"
    by (simp_all add: example_cameras)
  show ?thesis
    using camera_position_after_fit [OF k(1), of None unitBox]
      camera_position_after_fit [OF k(2), of None unitBox] k
    by (simp add: example_cameras)
qed

subsection \<open>Near plane, far plane and projection\<close>

text \<open>
  C5. After the fit, with \<open>d\<close> the computed distance, a perspective camera has near
  plane \<open>0.1\<close> and far plane \<open>d * 10\<close>, and its projection matrix has been recomputed:
  it is the one of the camera's field of view and aspect with the new near and far.
\<close>

theorem near_far_projection:
  assumes "kind c = PerspectiveCamera"
  shows "near (snd (OBJModel_onLoad ms obj c)) = 0.1 \<and>
         far (snd (OBJModel_onLoad ms obj c)) = cameraZ_of obj c * 10 \<and>
         projectionMatrix (snd (OBJModel_onLoad ms obj c)) =
           \<lparr>of_fov = fov c, of_aspect = aspect c, of_near = 0.1,
            of_far = cameraZ_of obj c * 10\<rparr> \<and>
         near (snd (FBXModel_fit obj c)) = 0.1 \<and>
         far (snd (FBXModel_fit obj c)) = cameraZ_of obj c * 10 \<and>
         projectionMatrix (snd (FBXModel_fit obj c)) =
           \<lparr>of_fov = fov c, of_aspect = aspect c, of_near = 0.1,
            of_far = cameraZ_of obj c * 10\<rparr> \<and>
         near (snd (GLTFModel_fit obj c)) = 0.1 \<and>
         far (snd (GLTFModel_fit obj c)) = cameraZ_of obj c * 10 \<and>
         projectionMatrix (snd (GLTFModel_fit obj c)) =
           \<lparr>of_fov = fov c, of_aspect = aspect c, of_near = 0.1,
            of_far = cameraZ_of obj c * 10\<rparr>"
  using assms
  by (simp add: snd_OBJModel_onLoad snd_FBXModel_fit snd_GLTFModel_fit
      updateProjectionMatrix_def setPositionZ_def)

theorem near_far_projection_witness:
  "kind orbitedCamera = PerspectiveCamera \<and>
   near (snd (OBJModel_onLoad None unitBox orbitedCamera)) = 0.1 \<and>
   far (snd (FBXModel_fit unitBox orbitedCamera)) = cameraZ_of unitBox orbitedCamera * 10 \<and>
   projectionMatrix (snd (GLTFModel_fit unitBox orbitedCamera)) =
     \<lparr>of_fov = 45, of_aspect = 2, of_near = 0.1,
      of_far = cameraZ_of unitBox orbitedCamera * 10\<rparr>"
proof -
  have k: "kind orbitedCamera = PerspectiveCamera"
    by (simp add: example_cameras)
  show ?thesis
    using near_far_projection [OF k, of None unitBox] k
    by (simp add: example_cameras)
qed

subsection \<open>What the fit leaves alone\<close>

lemma fitted_camera_frame:
  fixes c :: Camera and obj :: Object3D
  defines "c' \<equiv> (if kind c = PerspectiveCamera
       then updateProjectionMatrix
             ((setPositionZ c (cameraZ_of obj c))
                \<lparr>near := 0.1, far := cameraZ_of obj c * 10\<rparr>)
       else c)"
  shows "vx (cam_position c') = vx (cam_position c) \<and>
     vy (cam_position c') = vy (cam_position c) \<and>
     fov c' = fov c \<and> aspect c' = aspect c \<and>
     c' = c\<lparr>cam_position :=
              Vector3 (vx (cam_position c)) (vy (cam_position c)) (vz (cam_position c')),
            near := near c', far := far c', projectionMatrix := projectionMatrix c'\<rparr>"
  unfolding c'_def by (simp add: updateProjectionMatrix_def setPositionZ_def)

text \<open>
  C10. The fit changes nothing of the camera but \<open>position.z\<close>, near, far and the
  projection matrix: \<open>position.x\<close>, \<open>position.y\<close>, the field of view and the aspect
  are as before, and the camera after the fit is the camera before it with those four
  parts replaced.
\<close>

theorem fit_frame:
  "(let c' = snd (OBJModel_onLoad ms obj c) in
     vx (cam_position c') = vx (cam_position c) \<and>
     vy (cam_position c') = vy (cam_position c) \<and>
     fov c' = fov c \<and> aspect c' = aspect c \<and>
     c' = c\<lparr>cam_position :=
              Vector3 (vx (cam_position c)) (vy (cam_position c)) (vz (cam_position c')),
            near := near c', far := far c', projectionMatrix := projectionMatrix c'\<rparr>) \<and>
   (let c' = snd (FBXModel_fit obj c) in
     vx (cam_position c') = vx (cam_position c) \<and>
     vy (cam_position c') = vy (cam_position c) \<and>
     fov c' = fov c \<and> aspect c' = aspect c \<and>
     c' = c\<lparr>cam_position :=
              Vector3 (vx (cam_position c)) (vy (cam_position c)) (vz (cam_position c')),
            near := near c', far := far c', projectionMatrix := projectionMatrix c'\<rparr>) \<and>
   (let c' = snd (GLTFModel_fit obj c) in
     vx (cam_position c') = vx (cam_position c) \<and>
     vy (cam_position c') = vy (cam_position c) \<and>
     fov c' = fov c \<and> aspect c' = aspect c \<and>
     c' = c\<lparr>cam_position :=
              Vector3 (vx (cam_position c)) (vy (cam_position c)) (vz (cam_position c')),
            near := near c', far := far c', projectionMatrix := projectionMatrix c'\<rparr>)"
  unfolding Let_def snd_OBJModel_onLoad snd_FBXModel_fit snd_GLTFModel_fit
  using fitted_camera_frame [of c obj] by simp

theorem fit_frame_witness:
  "vx (cam_position (snd (OBJModel_onLoad None unitBox orbitedCamera))) = 6 \<and>
   vy (cam_position (snd (FBXModel_fit unitBox orbitedCamera))) = 0 \<and>
   fov (snd (GLTFModel_fit unitBox orbitedCamera)) = 45 \<and>
   aspect (snd (GLTFModel_fit unitBox orbitedCamera)) = 2"
  using fit_frame [of None unitBox orbitedCamera]
  by (simp add: Let_def example_cameras)

subsection \<open>An OBJ model without its material file\<close>

lemma has_default_material_assign: "has_default_material (assignDefaultMaterial obj)"
  unfolding has_default_material_def
proof (induction obj)
  case (Object3D p m s mat g cs)
  have "list_all (\<lambda>child. if isMesh child then material child = Some defaultMaterial else True)
      (concat (map traverse (map assignDefaultMaterial cs)))"
    using Object3D.IH by (induction cs) simp_all
  then show ?case by simp
qed

lemma has_default_material_setPosition:
  "has_default_material (setPosition obj a b c) = has_default_material obj"
  by (cases obj) (simp add: has_default_material_def setPosition_def)

lemma has_default_material_recentre:
  "has_default_material (recentre obj) = has_default_material obj"
  by (simp add: recentre_def Let_def has_default_material_setPosition)

lemma OBJModel_effect_unavailable:
  assumes "mtl_unavailable net objUrl materialUrl"
  shows "OBJModel_effect net objUrl materialUrl camera = loadObj net objUrl None camera"
  using assms
  by (auto simp: mtl_unavailable_def OBJModel_effect_def loadWithMaterial_def Let_def
      split: if_splits HeadResponse.splits LoadResult.splits)

lemma fst_loadObj:
  "fst (loadObj net objUrl ms camera) =
     (case objLoader_load net objUrl ms of
        Loaded obj \<Rightarrow> Some (fst (OBJModel_onLoad ms obj camera))
      | LoadFailed \<Rightarrow> None)"
  by (simp add: loadObj_def split: LoadResult.splits prod.splits)

text \<open>
  C9. A missing or unloadable MTL sidecar never makes the OBJ load fail: the effect then
  does what \<^verbatim>\<open>loadObj\<close> does with no materials on the loader, so it ends without a model
  only when the OBJ file itself fails to load; and when the OBJ file loads, the model is
  stored and every mesh in it has the default \<^verbatim>\<open>MeshStandardMaterial\<close> with colour
  \<^verbatim>\<open>0xcccccc\<close>, roughness \<open>0.5\<close> and metalness \<open>0.5\<close>.
\<close>

theorem obj_loads_without_mtl:
  assumes "mtl_unavailable net objUrl materialUrl"
  shows "OBJModel_effect net objUrl materialUrl camera = loadObj net objUrl None camera \<and>
         (fst (OBJModel_effect net objUrl materialUrl camera) = None \<longleftrightarrow>
            objLoader_load net objUrl None = LoadFailed) \<and>
         (\<forall>obj. objLoader_load net objUrl None = Loaded obj \<longrightarrow>
            (\<exists>model. fst (OBJModel_effect net objUrl materialUrl camera) = Some model \<and>
               model = fst (OBJModel_onLoad None obj camera) \<and>
               has_default_material model)) \<and>
         defaultMaterial = MeshStandardMaterial 0xcccccc 0.5 0.5"
proof -
  have e: "OBJModel_effect net objUrl materialUrl camera = loadObj net objUrl None camera"
    using assms by (rule OBJModel_effect_unavailable)
  have d: "has_default_material (fst (OBJModel_onLoad None obj camera))" for obj
    by (simp add: fst_OBJModel_onLoad has_default_material_recentre
        has_default_material_assign)
  show ?thesis
    by (simp add: e fst_loadObj d defaultMaterial_def split: LoadResult.splits)
qed

theorem obj_loads_without_mtl_witness:
  "mtl_unavailable sidecarless ''/models/chair.obj'' None \<and>
   fst (OBJModel_effect sidecarless ''/models/chair.obj'' None (canvasCamera 2)) =
     Some (fst (OBJModel_onLoad None unitBox (canvasCamera 2))) \<and>
   has_default_material (fst (OBJModel_onLoad None unitBox (canvasCamera 2)))"
proof -
  have u: "mtl_unavailable sidecarless ''/models/chair.obj'' None"
    by (simp add: mtl_unavailable_def sidecarless_def truthy_def startsWith_def)
  have l: "objLoader_load sidecarless ''/models/chair.obj'' None = Loaded unitBox"
    by (simp add: sidecarless_def)
  from obj_loads_without_mtl [OF u, of "canvasCamera 2"] l
  have "\<exists>model.
      fst (OBJModel_effect sidecarless ''/models/chair.obj'' None (canvasCamera 2)) =
        Some model \<and>
      model = fst (OBJModel_onLoad None unitBox (canvasCamera 2)) \<and>
      has_default_material model"
    by blast
  with u show ?thesis
    by blast
qed

subsection \<open>The environment preset\<close>

lemma rendered_cases:
  assumes "truthy (st_url s)" and "st_type s = Some t"
  shows "rendered s =
    (case t of
       GLTF \<Rightarrow>
         [Canvas [AmbientLight, SpotLight, PointLight,
            Suspense [GLTFModel (the (st_url s)) (st_environmentPreset s)], OrbitControls],
          AmbientLight, SpotLight, PointLight,
          Suspense [GLTFModel (the (st_url s)) (st_environmentPreset s)],
          GLTFModel (the (st_url s)) (st_environmentPreset s), OrbitControls,
          PresetSelect (st_environmentPreset s) environmentPresets]
     | GLB \<Rightarrow>
         [Canvas [AmbientLight, SpotLight, PointLight,
            Suspense [GLTFModel (the (st_url s)) (st_environmentPreset s)], OrbitControls],
          AmbientLight, SpotLight, PointLight,
          Suspense [GLTFModel (the (st_url s)) (st_environmentPreset s)],
          GLTFModel (the (st_url s)) (st_environmentPreset s), OrbitControls,
          PresetSelect (st_environmentPreset s) environmentPresets]
     | OBJ \<Rightarrow>
         [Canvas [AmbientLight, SpotLight, PointLight,
            Suspense [Stage ''city'' [OBJModel (the (st_url s)) (st_mtlUrl s)]],
            OrbitControls],
          AmbientLight, SpotLight, PointLight,
          Suspense [Stage ''city'' [OBJModel (the (st_url s)) (st_mtlUrl s)]],
          Stage ''city'' [OBJModel (the (st_url s)) (st_mtlUrl s)],
          OBJModel (the (st_url s)) (st_mtlUrl s), OrbitControls]
     | FBX \<Rightarrow>
         [Canvas [AmbientLight, SpotLight, PointLight,
            Suspense [Stage ''city'' [FBXModel (the (st_url s)) (st_showBones s)]],
            OrbitControls],
          AmbientLight, SpotLight, PointLight,
          Suspense [Stage ''city'' [FBXModel (the (st_url s)) (st_showBones s)]],
          Stage ''city'' [FBXModel (the (st_url s)) (st_showBones s)],
          FBXModel (the (st_url s)) (st_showBones s), OrbitControls,
          BonesCheckbox (st_showBones s)])"
  using assms
  by (cases t) (simp_all add: rendered_def ModelViewer_render_def ModelLoader_def Let_def)

text \<open>
  C7. With a model loaded, the preset selector is rendered, and the \<^verbatim>\<open>GLTFModel\<close>
  component with the chosen preset is rendered (whose output holds the \<^verbatim>\<open>Environment\<close> of
  that preset), exactly when the type is \<^verbatim>\<open>'gltf'\<close> or \<^verbatim>\<open>'glb'\<close>. For \<^verbatim>\<open>'obj'\<close> and
  \<^verbatim>\<open>'fbx'\<close> the rendered tree has no selector, no \<^verbatim>\<open>GLTFModel\<close> and no \<^verbatim>\<open>Environment\<close>
  element, and does not depend on the chosen preset at all.
\<close>

theorem environment_preset_only_for_gltf:
  assumes "truthy (st_url s)" and "st_type s = Some t"
  shows "(PresetSelect (st_environmentPreset s) environmentPresets \<in> set (rendered s) \<longleftrightarrow>
            t = GLTF \<or> t = GLB) \<and>
         (GLTFModel (the (st_url s)) (st_environmentPreset s) \<in> set (rendered s) \<longleftrightarrow>
            t = GLTF \<or> t = GLB) \<and>
         Environment (st_environmentPreset s) \<in>
            set (GLTFModel_render (the (st_url s)) (st_environmentPreset s)) \<and>
         (t = OBJ \<or> t = FBX \<longrightarrow>
            (\<forall>v os. PresetSelect v os \<notin> set (rendered s)) \<and>
            (\<forall>u p. GLTFModel u p \<notin> set (rendered s)) \<and>
            (\<forall>p. Environment p \<notin> set (rendered s)) \<and>
            (\<forall>p. ModelViewer_render (s\<lparr>st_environmentPreset := p\<rparr>) =
                 ModelViewer_render s))"
proof -
  have indep: "ModelViewer_render (s\<lparr>st_environmentPreset := p\<rparr>) = ModelViewer_render s"
    if "t = OBJ \<or> t = FBX" for p
    using that assms by (auto simp: ModelViewer_render_def ModelLoader_def Let_def)
  show ?thesis
    using indep by (cases t) (simp_all add: rendered_cases [OF assms] GLTFModel_render_def)
qed

theorem environment_preset_only_for_gltf_witness:
  "truthy (st_url glbState) \<and> st_type glbState = Some GLB \<and>
   PresetSelect ''sunset'' environmentPresets \<in> set (rendered glbState) \<and>
   GLTFModel ''blob:1'' ''sunset'' \<in> set (rendered glbState) \<and>
   truthy (st_url fbxState) \<and> st_type fbxState = Some FBX \<and>
   PresetSelect ''sunset'' environmentPresets \<notin> set (rendered fbxState) \<and>
   ModelViewer_render (fbxState\<lparr>st_environmentPreset := ''night''\<rparr>) =
     ModelViewer_render fbxState"
proof -
  have g: "truthy (st_url glbState)" "st_type glbState = Some GLB"
    and f: "truthy (st_url fbxState)" "st_type fbxState = Some FBX"
    by (simp_all add: glbState_def fbxState_def truthy_def)
  have v: "st_environmentPreset glbState = ''sunset''" "the (st_url glbState) = ''blob:1''"
    by (simp_all add: glbState_def)
  from environment_preset_only_for_gltf [OF g] v
  have 1: "PresetSelect ''sunset'' environmentPresets \<in> set (rendered glbState)"
    "GLTFModel ''blob:1'' ''sunset'' \<in> set (rendered glbState)"
    by simp_all
  from environment_preset_only_for_gltf [OF f]
  have 2: "PresetSelect ''sunset'' environmentPresets \<notin> set (rendered fbxState)"
    "ModelViewer_render (fbxState\<lparr>st_environmentPreset := ''night''\<rparr>) =
       ModelViewer_render fbxState"
    by blast+
  from g f 1 2 show ?thesis by blast
qed

subsection \<open>The skeleton overlay\<close>

lemma fbx_requested_iff:
  "fbx_requested s =
     (if truthy (st_url s) \<and> st_type s = Some FBX
      then Some (the (st_url s), st_showBones s) else None)"
proof (cases "truthy (st_url s) \<and> st_type s \<noteq> None")
  case True
  then obtain t where t: "st_type s = Some t" by auto
  from True have u: "truthy (st_url s)" by simp
  show ?thesis
    using u t
    by (cases t)
      (simp_all add: fbx_requested_def rendered_cases [OF u t] List.map_filter_simps)
next
  case False
  then have "rendered s = [DropPrompt]"
    by (auto simp: rendered_def ModelViewer_render_def)
  with False show ?thesis
    by (auto simp: fbx_requested_def List.map_filter_simps)
qed

lemma mount_ok:
  assumes "helpers sc = []"
  shows "page_ok useFBX (mount useFBX u b (sc, None))"
    and "fbxInstance (mount useFBX u b (sc, None)) \<noteq> None"
    and "map_option (\<lambda>inst. (dep_url inst, dep_showBones inst))
           (fbxInstance (mount useFBX u b (sc, None))) = Some (u, b)"
  using assms
  by (simp_all add: mount_def FBXModel_bones_effect_def page_ok_def hasBones_of_def Let_def)

lemma cleanup_ok:
  assumes "page_ok useFBX page" and "fbxInstance page = Some inst"
  shows "helpers (fst (FBXModel_bones_cleanup (scene page, skeletonRef inst))) = []"
    and "snd (FBXModel_bones_cleanup (scene page, skeletonRef inst)) = None"
  using assms
  by (auto simp: FBXModel_bones_cleanup_def page_ok_def split: option.splits)

text \<open>Every commit keeps the invariant and brings the page in line with the state.\<close>

lemma commit_ok:
  assumes "page_ok useFBX page"
  shows "page_ok useFBX (commit useFBX s page) \<and> page_matches s (commit useFBX s page)"
proof (cases "fbxInstance page")
  case None
  with assms have e: "helpers (scene page) = []" by (simp add: page_ok_def)
  show ?thesis
  proof (cases "fbx_requested s")
    case n: None
    with None assms show ?thesis by (simp add: commit_def page_matches_def)
  next
    case (Some ub)
    obtain u b where ub: "ub = (u, b)" by (cases ub)
    with Some None mount_ok [OF e, of useFBX u b] show ?thesis
      by (simp add: commit_def page_matches_def)
  qed
next
  case (Some inst)
  obtain sc r where c: "FBXModel_bones_cleanup (scene page, skeletonRef inst) = (sc, r)"
    by (cases "FBXModel_bones_cleanup (scene page, skeletonRef inst)")
  from cleanup_ok [OF assms Some] c have e: "helpers sc = []" and r: "r = None"
    by simp_all
  show ?thesis
  proof (cases "fbx_requested s")
    case None
    with Some c e show ?thesis by (simp add: commit_def page_matches_def page_ok_def)
  next
    case req: (Some ub)
    obtain u b where ub: "ub = (u, b)" by (cases ub)
    show ?thesis
    proof (cases "u = dep_url inst \<and> b = dep_showBones inst")
      case True
      with Some req ub assms show ?thesis by (simp add: commit_def page_matches_def)
    next
      case False
      with Some req ub c r mount_ok [OF e, of useFBX u b] show ?thesis
        by (auto simp: commit_def page_matches_def)
    qed
  qed
qed

lemma initialPage_ok: "page_ok useFBX initialPage"
  by (simp add: page_ok_def initialPage_def)

lemma fold_commit_ok:
  "page_ok useFBX page \<Longrightarrow> page_ok useFBX (fold (commit useFBX) states page)"
  by (induction states arbitrary: page) (simp_all add: commit_ok)

lemma fold_commit_matches:
  assumes "page_ok useFBX page" and "states \<noteq> []"
  shows "page_matches (last states) (fold (commit useFBX) states page)"
proof -
  from assms(2) obtain ss s where s: "states = ss @ [s]"
    by (metis append_butlast_last_id)
  have "page_ok useFBX (fold (commit useFBX) ss page)"
    using assms(1) by (rule fold_commit_ok)
  then have "page_matches s (commit useFBX s (fold (commit useFBX) ss page))"
    using commit_ok by blast
  with s show ?thesis by simp
qed

lemma helpers_iff:
  assumes "page_ok useFBX page" and "page_matches s page"
  shows "helpers (scene page) \<noteq> [] \<longleftrightarrow>
           truthy (st_url s) \<and> st_type s = Some FBX \<and> st_showBones s \<and>
           hasBones_of (useFBX (the (st_url s)))"
    and "length (helpers (scene page)) \<le> 1"
    and "\<forall>h\<in>set (helpers (scene page)). helper_root h = the (st_url s) \<and> helper_visible h"
  using assms
  by (auto simp: page_ok_def page_matches_def fbx_requested_iff
      split: option.splits if_splits)

text \<open>
  C8. After any sequence of renders of the viewer, the scene holds a \<^verbatim>\<open>SkeletonHelper\<close>
  if and only if the loaded model is FBX, \<^verbatim>\<open>showBones\<close> is on and the model has a mesh
  with a skeleton; there is at most one helper, it is visible and it is the one built
  for the current model; and a further render with \<^verbatim>\<open>showBones\<close> off, or with a model
  that is not FBX (which unmounts the FBX component), leaves no helper in the scene.
\<close>

theorem skeleton_helper_invariant:
  "(let page = fold (commit useFBX) (s0 # states) initialPage;
        s = last (s0 # states)
    in (helpers (scene page) \<noteq> [] \<longleftrightarrow>
          truthy (st_url s) \<and> st_type s = Some FBX \<and> st_showBones s \<and>
          hasBones_of (useFBX (the (st_url s)))) \<and>
       length (helpers (scene page)) \<le> 1 \<and>
       (\<forall>h\<in>set (helpers (scene page)).
          helper_root h = the (st_url s) \<and> helper_visible h) \<and>
       (\<forall>s'. \<not> st_showBones s' \<or> st_type s' \<noteq> Some FBX \<longrightarrow>
          helpers (scene (commit useFBX s' page)) = []))"
proof -
  define page where "page = fold (commit useFBX) (s0 # states) initialPage"
  define s where "s = last (s0 # states)"
  have ok: "page_ok useFBX page"
    unfolding page_def by (rule fold_commit_ok) (rule initialPage_ok)
  have m: "page_matches s page"
    unfolding page_def s_def by (rule fold_commit_matches) (simp_all add: initialPage_ok)
  have off: "helpers (scene (commit useFBX s' page)) = []"
    if "\<not> st_showBones s' \<or> st_type s' \<noteq> Some FBX" for s'
  proof -
    from commit_ok [OF ok, of s']
    have "page_ok useFBX (commit useFBX s' page)" "page_matches s' (commit useFBX s' page)"
      by simp_all
    from helpers_iff(1) [OF this] that show ?thesis by blast
  qed
  from helpers_iff [OF ok m] off
  have "(helpers (scene page) \<noteq> [] \<longleftrightarrow>
          truthy (st_url s) \<and> st_type s = Some FBX \<and> st_showBones s \<and>
          hasBones_of (useFBX (the (st_url s)))) \<and>
       length (helpers (scene page)) \<le> 1 \<and>
       (\<forall>h\<in>set (helpers (scene page)).
          helper_root h = the (st_url s) \<and> helper_visible h) \<and>
       (\<forall>s'. \<not> st_showBones s' \<or> st_type s' \<noteq> Some FBX \<longrightarrow>
          helpers (scene (commit useFBX s' page)) = [])"
    by blast
  then show ?thesis
    unfolding page_def s_def Let_def .
qed

theorem skeleton_helper_invariant_witness:
  "helpers (scene (fold (commit (\<lambda>u. riggedModel)) [glbState, fbxState] initialPage)) \<noteq> [] \<and>
   helpers (scene (commit (\<lambda>u. riggedModel) (fbxState\<lparr>st_showBones := False\<rparr>)
      (fold (commit (\<lambda>u. riggedModel)) [glbState, fbxState] initialPage))) = [] \<and>
   helpers (scene (fold (commit (\<lambda>u. riggedModel)) [fbxState, glbState] initialPage)) = []"
proof -
  have r: "hasBones_of riggedModel"
    by (simp add: hasBones_of_def riggedModel_def)
  have f: "truthy (st_url fbxState)" "st_type fbxState = Some FBX" "st_showBones fbxState"
    and g: "st_type glbState \<noteq> Some FBX"
    and o: "\<not> st_showBones (fbxState\<lparr>st_showBones := False\<rparr>)"
    by (simp_all add: fbxState_def glbState_def truthy_def)
  note a = skeleton_helper_invariant [of "\<lambda>u. riggedModel" glbState "[fbxState]",
      unfolded Let_def]
  note b = skeleton_helper_invariant [of "\<lambda>u. riggedModel" fbxState "[glbState]",
      unfolded Let_def]
  from a r f
  have 1: "helpers (scene (fold (commit (\<lambda>u. riggedModel)) [glbState, fbxState] initialPage)) \<noteq> []"
    by simp
  from a o
  have 2: "helpers (scene (commit (\<lambda>u. riggedModel) (fbxState\<lparr>st_showBones := False\<rparr>)
      (fold (commit (\<lambda>u. riggedModel)) [glbState, fbxState] initialPage))) = []"
    by blast
  from b g
  have 3: "helpers (scene (fold (commit (\<lambda>u. riggedModel)) [fbxState, glbState] initialPage)) = []"
    by simp
  from 1 2 3 show ?thesis by blast
qed

end
